theory Spec2Isabelle
  imports Main "HOL-Library.Char_ord" "HOL-Library.List_Lexorder" "HOL-Library.Option_ord"
    "HOL-Library.Multiset" "HOL-Library.Sublist"
begin

section \<open>The Answer Service of api/index.js\<close>

text \<open>
  The module is an Express application: one gating middleware that calls
  \<open>connectToDatabase\<close>, and four routes (list, upload, delete, serve-file).  The model
  passes the process state and the outside world (environment variable, document
  collection, file system, console) explicitly as a record, and reads the results of the
  calls that leave the process (\<open>mongoose.connect\<close>, the store operations, \<open>fs.unlink\<close>,
  \<open>Date.now\<close>) from a second record supplied with each request.
\<close>

subsection \<open>Data\<close>

type_synonym bytes = string

text \<open>The schema \<open>answerSchema\<close>, with the \<open>_id\<close> that Mongoose adds to every document.
  A field that is \<open>null\<close> or was never supplied is \<open>None\<close>.\<close>

record answer =
  a_id :: string
  title :: "string option"
  fileName :: "string option"
  filePath :: "string option"
  question :: "string option"
  uploadDate :: "string option"
  gsPaper :: "string option"
  source :: "string option"
  mimeType :: "string option"

datatype node = File bytes | Dir

type_synonym filesystem = "string \<Rightarrow> node option"

record world =
  env_MONGO_URI :: "string option"
  cachedDb :: "nat option"
  connect_calls :: nat
  collection :: "answer list"
  next_id :: nat
  fs :: filesystem
  unlink_calls :: "string list"
  console :: "string list"

text \<open>What lies outside the module during one request: the clock, for each call that can
  throw the error message when it does, and the table from file extension to content type
  that the framework consults in \<open>res.sendFile\<close>.\<close>

record ext =
  now :: nat
  connect_err :: "string option"
  find_err :: "string option"
  save_err :: "string option"
  delete_err :: "string option"
  unlink_err :: "string option"
  mime_types :: "string \<Rightarrow> string option"

text \<open>The text fields of the multipart form (\<open>req.body\<close>) and the file part as multer
  receives it.\<close>

record form =
  f_title :: "string option"
  f_question :: "string option"
  f_uploadDate :: "string option"
  f_gsPaper :: "string option"
  f_source :: "string option"

record file_part =
  originalname :: string
  mimetype :: string
  content :: bytes

text \<open>\<open>req.file\<close> as multer's disk storage fills it in.\<close>

record multer_file =
  filename :: string
  path :: string
  mf_mimetype :: string

text \<open>A request, by the route it matches, with \<open>req.params\<close> already decoded by Express: the
  \<open>:fileName\<close> segment reaches the handler after \<open>decodeURIComponent\<close>, so it may contain
  \<open>/\<close> (sent as \<open>%2F\<close>).\<close>

datatype request =
    GET_answers
  | POST_upload form "file_part option"
  | DELETE_answer string
  | GET_upload string

datatype json =
    JAnswer answer
  | JAnswers "answer list"
  | JMessage string
  | JError string string

text \<open>\<open>res.json\<close> and \<open>res.send\<close> of an object give a JSON body, \<open>res.send\<close> of a string a
  text body, \<open>res.sendFile\<close> the file's bytes with a content type; \<open>ExpressNotFound\<close> is the
  framework's own page when \<open>sendFile\<close> passes the request on.\<close>

datatype body =
    Json json
  | Text string
  | FileBody bytes string
  | ExpressNotFound

record response =
  status :: nat
  body :: body

subsection \<open>Number to string\<close>

definition digit :: "nat \<Rightarrow> char" where
  "digit d = ''0123456789'' ! d"

function show_nat :: "nat \<Rightarrow> string" where
  "show_nat n = (if n < 10 then [digit n] else show_nat (n div 10) @ [digit (n mod 10)])"
  by pat_completeness auto
termination
  by (relation "measure (\<lambda>n. n)") auto

declare show_nat.simps [simp del]

subsection \<open>Letters and hexadecimal digits\<close>

definition to_lower :: "char \<Rightarrow> char" where
  "to_lower c =
     (case map_of (zip ''ABCDEFGHIJKLMNOPQRSTUVWXYZ'' ''abcdefghijklmnopqrstuvwxyz'') c of
        Some d \<Rightarrow> d
      | None \<Rightarrow> c)"

definition is_hex :: "char \<Rightarrow> bool" where
  "is_hex c = (c \<in> set ''0123456789abcdefABCDEF'')"

subsection \<open>path.join (POSIX)\<close>

fun split_slash :: "string \<Rightarrow> string list" where
  "split_slash [] = [[]]"
| "split_slash (c # cs) =
     (if c = CHR ''/'' then [] # split_slash cs
      else (case split_slash cs of [] \<Rightarrow> [[c]] | s # ss \<Rightarrow> (c # s) # ss))"

fun join_slash :: "string list \<Rightarrow> string" where
  "join_slash [] = []"
| "join_slash [s] = s"
| "join_slash (s # t # ss) = s @ CHR ''/'' # join_slash (t # ss)"

text \<open>Node's \<open>normalizeString\<close>: the segments kept so far are held in reverse.\<close>

fun normalizeString :: "bool \<Rightarrow> string list \<Rightarrow> string list \<Rightarrow> string list" where
  "normalizeString allowAboveRoot res [] = rev res"
| "normalizeString allowAboveRoot res (s # ss) =
     (if s = [] \<or> s = ''.'' then normalizeString allowAboveRoot res ss
      else if s = ''..'' then
        (case res of
           [] \<Rightarrow> if allowAboveRoot then normalizeString allowAboveRoot [''..''] ss
                 else normalizeString allowAboveRoot [] ss
         | r # rs \<Rightarrow> if r = ''..'' then normalizeString allowAboveRoot (''..'' # res) ss
                 else normalizeString allowAboveRoot rs ss)
      else normalizeString allowAboveRoot (s # res) ss)"

definition path_normalize :: "string \<Rightarrow> string" where
  "path_normalize p =
     (if p = [] then ''.''
      else
        let isAbsolute = (hd p = CHR ''/'');
            trailingSeparator = (last p = CHR ''/'');
            q = join_slash (normalizeString (\<not> isAbsolute) [] (split_slash p))
        in if q = [] then (if isAbsolute then ''/'' else if trailingSeparator then ''./'' else ''.'')
           else (if isAbsolute then ''/'' else []) @ q @ (if trailingSeparator then ''/'' else []))"

definition path_join :: "string list \<Rightarrow> string" where
  "path_join args =
     (let joined = join_slash (filter (\<lambda>a. a \<noteq> []) args)
      in if joined = [] then ''.'' else path_normalize joined)"

definition uploadDir :: string where
  "uploadDir = path_join [''/tmp'', ''uploads'']"

subsection \<open>File system calls\<close>

definition existsSync :: "filesystem \<Rightarrow> string \<Rightarrow> bool" where
  "existsSync f p = (f p \<noteq> None)"

text \<open>\<open>fs.mkdirSync(p, {recursive: true})\<close> for the two levels of \<open>/tmp/uploads\<close>.\<close>

definition mkdirSync_recursive :: "filesystem \<Rightarrow> filesystem" where
  "mkdirSync_recursive f =
     (let f1 = (if f ''/tmp'' = None then f(''/tmp'' \<mapsto> Dir) else f)
      in f1(uploadDir \<mapsto> Dir))"

text \<open>\<open>fs.unlink(p, cb)\<close> with the callback of the delete route: the call is recorded; when
  it fails the callback logs the error, otherwise the file is gone.  Only a regular file
  can be unlinked.  The callback runs after the handler has gone on; the model lets it
  run at once, and nothing in the handler reads its effect.\<close>

definition unlink_result :: "filesystem \<Rightarrow> ext \<Rightarrow> string \<Rightarrow> string option" where
  "unlink_result f e p =
     (case unlink_err e of
        Some err \<Rightarrow> Some err
      | None \<Rightarrow> (case f p of
                   Some (File b) \<Rightarrow> None
                 | Some Dir \<Rightarrow> Some ''EISDIR''
                 | None \<Rightarrow> Some ''ENOENT''))"

definition unlink :: "world \<Rightarrow> ext \<Rightarrow> string \<Rightarrow> world" where
  "unlink w e p =
     (let w1 = w\<lparr>unlink_calls := unlink_calls w @ [p]\<rparr>
      in case unlink_result (fs w) e p of
           Some err \<Rightarrow> w1\<lparr>console := console w1 @ [''Error deleting temp file: '' @ err]\<rparr>
         | None \<Rightarrow> w1\<lparr>fs := (fs w1)(p := None)\<rparr>)"

subsection \<open>Module start-up\<close>

text \<open>Loading the module creates the upload directory when it is missing (the \<open>mkdir\<close> is
  taken to succeed) and sets \<open>cachedDb = null\<close>.  It reads no configuration and opens no
  connection.  Mongoose gives every new document a fresh \<open>_id\<close>; the model draws it from
  the counter \<open>next_id\<close>.\<close>

definition startup :: "string option \<Rightarrow> answer list \<Rightarrow> filesystem \<Rightarrow> world" where
  "startup uri docs f =
     \<lparr>env_MONGO_URI = uri,
      cachedDb = None,
      connect_calls = 0,
      collection = docs,
      next_id = 0,
      fs = (if \<not> existsSync f uploadDir then mkdirSync_recursive f else f),
      unlink_calls = [],
      console = []\<rparr>"

subsection \<open>Connection management\<close>

text \<open>\<open>connectToDatabase\<close>.  \<open>Inl msg\<close> is the thrown error's message.  An unset and an
  empty \<open>MONGO_URI\<close> are both falsy.  The handle of a new connection is the serial number
  of the \<open>mongoose.connect\<close> call that made it.\<close>

definition connectToDatabase :: "world \<Rightarrow> ext \<Rightarrow> (string + nat) \<times> world" where
  "connectToDatabase w e =
     (case cachedDb w of
        Some db \<Rightarrow> (Inr db, w)
      | None \<Rightarrow>
          (if env_MONGO_URI w = None \<or> env_MONGO_URI w = Some []
           then (Inl ''MONGO_URI environment variable is not set.'',
                 w\<lparr>console := console w @
                    [''MongoDB connection error: MONGO_URI environment variable is not set.'']\<rparr>)
           else
             let w1 = w\<lparr>console := console w @ [''Connecting to MongoDB...''],
                        connect_calls := Suc (connect_calls w)\<rparr>
             in case connect_err e of
                  Some err \<Rightarrow>
                    (Inl err, w1\<lparr>console := console w1 @ [''MongoDB connection error: '' @ err]\<rparr>)
                | None \<Rightarrow>
                    (Inr (connect_calls w1),
                     w1\<lparr>cachedDb := Some (connect_calls w1),
                        console := console w1 @ [''Successfully connected to MongoDB Atlas!'']\<rparr>)))"

subsection \<open>The store\<close>

text \<open>The \<open>_id\<close> of a document is an ObjectId, kept here as its 24 lower-case hexadecimal
  characters.  Mongoose casts the string it is given to an ObjectId before it queries: a
  string of 24 hexadecimal characters is accepted, in either case; for any other string
  the cast throws.  (The message of the cast error is given without its quotation
  marks.)\<close>

definition castObjectId :: "string \<Rightarrow> string option" where
  "castObjectId i = (if length i = 24 \<and> list_all is_hex i then Some (map to_lower i) else None)"

definition cast_error :: "string \<Rightarrow> string" where
  "cast_error i =
     ''Cast to ObjectId failed for value '' @ i @ '' (type string) at path _id for model Answer''"

fun find_doc :: "answer list \<Rightarrow> string \<Rightarrow> answer option" where
  "find_doc [] oid = None"
| "find_doc (a # as) oid = (if a_id a = oid then Some a else find_doc as oid)"

fun remove_doc :: "answer list \<Rightarrow> string \<Rightarrow> answer list" where
  "remove_doc [] oid = []"
| "remove_doc (a # as) oid = (if a_id a = oid then as else a # remove_doc as oid)"

text \<open>\<open>Answer.findById(id)\<close>: \<open>Inl\<close> is the message of the cast error, \<open>Inr\<close> the document
  found or \<open>null\<close>.\<close>

definition findById :: "answer list \<Rightarrow> string \<Rightarrow> string + answer option" where
  "findById as i =
     (case castObjectId i of
        None \<Rightarrow> Inl (cast_error i)
      | Some oid \<Rightarrow> Inr (find_doc as oid))"

text \<open>The collection after \<open>Answer.findByIdAndDelete(id)\<close>.  The handler calls it only with
  an identifier that \<open>findById\<close> has cast before, so the cast cannot fail there; for such
  a string the collection is returned as it is.\<close>

definition deleteById :: "answer list \<Rightarrow> string \<Rightarrow> answer list" where
  "deleteById as i =
     (case castObjectId i of
        None \<Rightarrow> as
      | Some oid \<Rightarrow> remove_doc as oid)"

text \<open>The ObjectId of a new document, drawn from a counter: its decimal digits, padded
  with zeros to 24 characters.\<close>

definition new_object_id :: "nat \<Rightarrow> string" where
  "new_object_id n =
     (let s = ''000000000000000000000000'' @ show_nat n in drop (length s - 24) s)"

text \<open>\<open>find().sort({uploadDate: -1})\<close>: descending on the string field, compared byte by
  byte; a missing value is below every string.\<close>

fun insert_desc :: "answer \<Rightarrow> answer list \<Rightarrow> answer list" where
  "insert_desc a [] = [a]"
| "insert_desc a (b # bs) =
     (if uploadDate a < uploadDate b then b # insert_desc a bs else a # b # bs)"

fun sort_desc :: "answer list \<Rightarrow> answer list" where
  "sort_desc [] = []"
| "sort_desc (a # as) = insert_desc a (sort_desc as)"

subsection \<open>Upload storage (multer)\<close>

text \<open>\<open>upload.single("file")\<close> with the module's disk storage: destination \<open>uploadDir\<close>,
  file name \<open>Date.now() + "-" + file.originalname\<close>; multer writes the part to
  \<open>path.join(destination, filename)\<close> and reports that path.  A part whose file name is
  empty is skipped by multer: nothing is written and \<open>req.file\<close> stays undefined.\<close>

definition storage_filename :: "ext \<Rightarrow> file_part \<Rightarrow> string" where
  "storage_filename e f = show_nat (now e) @ ''-'' @ originalname f"

definition upload_single :: "world \<Rightarrow> ext \<Rightarrow> file_part option \<Rightarrow> multer_file option \<times> world" where
  "upload_single w e part =
     (case part of
        None \<Rightarrow> (None, w)
      | Some f \<Rightarrow>
          if originalname f = [] then (None, w)
          else
            let name = storage_filename e f;
                p = path_join [uploadDir, name]
            in (Some \<lparr>filename = name, path = p, mf_mimetype = mimetype f\<rparr>,
                w\<lparr>fs := (fs w)(p \<mapsto> File (content f))\<rparr>))"

subsection \<open>Serving a file (res.sendFile)\<close>

text \<open>The content type comes from the extension of the file name, in lower case, through
  the framework's table \<open>types\<close>; a name without extension, or with one the table does not
  have, gets \<open>application/octet-stream\<close>.\<close>

definition extname :: "string \<Rightarrow> string" where
  "extname p = (let b = last (split_slash p) in
                if CHR ''.'' \<in> set (tl b) then rev (takeWhile (\<lambda>c. c \<noteq> CHR ''.'') (rev b))
                else [])"

definition mime_lookup :: "(string \<Rightarrow> string option) \<Rightarrow> string \<Rightarrow> string" where
  "mime_lookup types p =
     (let x = map to_lower (extname p) in
      if x = [] then ''application/octet-stream''
      else (case types x of
              Some t \<Rightarrow> t
            | None \<Rightarrow> ''application/octet-stream''))"

text \<open>A path with a segment that begins with a dot (and is longer than the dot) is a dot
  file to the framework, which by default does not serve it.\<close>

definition containsDotFile :: "string list \<Rightarrow> bool" where
  "containsDotFile parts = list_ex (\<lambda>part. 1 < length part \<and> hd part = CHR ''.'') parts"

definition sendFile :: "filesystem \<Rightarrow> (string \<Rightarrow> string option) \<Rightarrow> string \<Rightarrow> response" where
  "sendFile f types p =
     (if containsDotFile (split_slash p) then \<lparr>status = 404, body = ExpressNotFound\<rparr>
      else (case f p of
              Some (File b) \<Rightarrow> \<lparr>status = 200, body = FileBody b (mime_lookup types p)\<rparr>
            | _ \<Rightarrow> \<lparr>status = 404, body = ExpressNotFound\<rparr>))"

subsection \<open>Route handlers\<close>

definition get_answers :: "world \<Rightarrow> ext \<Rightarrow> response \<times> world" where
  "get_answers w e =
     (case find_err e of
        Some err \<Rightarrow> (\<lparr>status = 500, body = Json (JError ''Error fetching answers'' err)\<rparr>, w)
      | None \<Rightarrow> (\<lparr>status = 200, body = Json (JAnswers (sort_desc (collection w)))\<rparr>, w))"

definition new_answer :: "world \<Rightarrow> form \<Rightarrow> multer_file option \<Rightarrow> answer" where
  "new_answer w b file =
     \<lparr>a_id = new_object_id (next_id w),
      title = f_title b,
      fileName = (case file of Some f \<Rightarrow> Some (filename f) | None \<Rightarrow> None),
      filePath = (case file of Some f \<Rightarrow> Some (path f) | None \<Rightarrow> None),
      question = f_question b,
      uploadDate = f_uploadDate b,
      gsPaper = f_gsPaper b,
      source = f_source b,
      mimeType = (case file of Some f \<Rightarrow> Some (mf_mimetype f) | None \<Rightarrow> None)\<rparr>"

definition post_upload :: "world \<Rightarrow> ext \<Rightarrow> form \<Rightarrow> file_part option \<Rightarrow> response \<times> world" where
  "post_upload w e b part =
     (let (file, w1) = upload_single w e part;
          newAnswer = new_answer w1 b file;
          w2 = w1\<lparr>next_id := Suc (next_id w1)\<rparr>
      in case save_err e of
           Some err \<Rightarrow> (\<lparr>status = 500, body = Json (JError ''Error uploading answer'' err)\<rparr>, w2)
         | None \<Rightarrow>
             (\<lparr>status = 201, body = Json (JAnswer newAnswer)\<rparr>,
              w2\<lparr>collection := collection w2 @ [newAnswer]\<rparr>))"

text \<open>The clean-up step of the delete route: \<open>answer.filePath && fs.existsSync(...)\<close>
  guards the \<open>fs.unlink\<close>; an empty string is falsy.\<close>

definition cleanup :: "world \<Rightarrow> ext \<Rightarrow> answer \<Rightarrow> world" where
  "cleanup w e a =
     (case filePath a of
        None \<Rightarrow> w
      | Some p \<Rightarrow> if p \<noteq> [] \<and> existsSync (fs w) p then unlink w e p else w)"

text \<open>The part of the delete route after the record was found.\<close>

definition delete_found :: "world \<Rightarrow> ext \<Rightarrow> string \<Rightarrow> answer \<Rightarrow> response \<times> world" where
  "delete_found w e i a =
     (let w1 = cleanup w e a
      in (case delete_err e of
            Some err \<Rightarrow>
              (\<lparr>status = 500, body = Json (JError ''Error deleting answer'' err)\<rparr>, w1)
          | None \<Rightarrow>
              (\<lparr>status = 200, body = Json (JMessage ''Answer deleted successfully'')\<rparr>,
               w1\<lparr>collection := deleteById (collection w1) i\<rparr>)))"

text \<open>The delete route.  A cast error of \<open>findById\<close> and an error of the store both end in
  the \<open>catch\<close> branch; the cast comes first, before anything is sent to the store.\<close>

definition delete_answer :: "world \<Rightarrow> ext \<Rightarrow> string \<Rightarrow> response \<times> world" where
  "delete_answer w e i =
     (case findById (collection w) i of
        Inl err \<Rightarrow> (\<lparr>status = 500, body = Json (JError ''Error deleting answer'' err)\<rparr>, w)
      | Inr found \<Rightarrow>
          (case find_err e of
             Some err \<Rightarrow>
               (\<lparr>status = 500, body = Json (JError ''Error deleting answer'' err)\<rparr>, w)
           | None \<Rightarrow>
               (case found of
                  None \<Rightarrow> (\<lparr>status = 404, body = Text ''Answer not found''\<rparr>, w)
                | Some a \<Rightarrow> delete_found w e i a)))"

definition get_upload :: "world \<Rightarrow> ext \<Rightarrow> string \<Rightarrow> response \<times> world" where
  "get_upload w e name =
     (let p = path_join [uploadDir, name]
      in if existsSync (fs w) p then (sendFile (fs w) (mime_types e) p, w)
         else (\<lparr>status = 404,
                body = Text ''File not found. It may have been cleared from temporary storage.''\<rparr>, w))"

subsection \<open>The application\<close>

definition route :: "world \<Rightarrow> ext \<Rightarrow> request \<Rightarrow> response \<times> world" where
  "route w e req =
     (case req of
        GET_answers \<Rightarrow> get_answers w e
      | POST_upload b part \<Rightarrow> post_upload w e b part
      | DELETE_answer i \<Rightarrow> delete_answer w e i
      | GET_upload name \<Rightarrow> get_upload w e name)"

text \<open>The middleware registered before the routes: connect, then \<open>next()\<close>, or answer 500.\<close>

definition app :: "world \<Rightarrow> ext \<Rightarrow> request \<Rightarrow> response \<times> world" where
  "app w e req =
     (case connectToDatabase w e of
        (Inl err, w1) \<Rightarrow>
          (\<lparr>status = 500, body = Json (JError ''Database connection failed'' err)\<rparr>, w1)
      | (Inr db, w1) \<Rightarrow> route w1 e req)"

text \<open>Requests served one after another by the same process.\<close>

fun run :: "world \<Rightarrow> (ext \<times> request) list \<Rightarrow> world" where
  "run w [] = w"
| "run w ((e, req) # rest) = run (snd (app w e req)) rest"

subsection \<open>Observations on a request\<close>

text \<open>Whether the connection middleware lets a request through (\<open>connectToDatabase\<close>
  returned a handle), and the state it hands on.\<close>

definition gate_passes :: "world \<Rightarrow> ext \<Rightarrow> bool" where
  "gate_passes w e = (case fst (connectToDatabase w e) of Inl err \<Rightarrow> False | Inr db \<Rightarrow> True)"

definition after_gate :: "world \<Rightarrow> ext \<Rightarrow> world" where
  "after_gate w e = snd (connectToDatabase w e)"

definition descending :: "answer list \<Rightarrow> bool" where
  "descending as = sorted_wrt (\<lambda>a b. uploadDate b \<le> uploadDate a) as"



subsection \<open>Sample inputs\<close>

definition demo_types :: "string \<Rightarrow> string option" where
  "demo_types = [''txt'' \<mapsto> ''text/plain'', ''pdf'' \<mapsto> ''application/pdf'']"

definition demo_ext :: ext where
  "demo_ext = \<lparr>now = 1700000000000, connect_err = None, find_err = None, save_err = None,
               delete_err = None, unlink_err = None, mime_types = demo_types\<rparr>"

definition refused_ext :: ext where
  "refused_ext = demo_ext\<lparr>connect_err := Some ''ECONNREFUSED''\<rparr>"

definition eacces_ext :: ext where
  "eacces_ext = demo_ext\<lparr>unlink_err := Some ''EACCES''\<rparr>"

definition demo_form :: form where
  "demo_form = \<lparr>f_title = Some ''Essay'', f_question = Some ''Q1'',
                f_uploadDate = Some ''2024-01-01'', f_gsPaper = Some ''GS1'',
                f_source = Some ''mock''\<rparr>"

definition demo_file :: file_part where
  "demo_file = \<lparr>originalname = ''notes.txt'', mimetype = ''application/pdf'',
                content = ''%PDF-1.4''\<rparr>"


definition demo_id :: string where
  "demo_id = ''000000000000000000000000''"

definition feb_id :: string where
  "feb_id = ''000000000000000000000001''"

definition unknown_id :: string where
  "unknown_id = ''65f0c0ffee65f0c0ffee65f0''"

definition demo_record :: answer where
  "demo_record =
     \<lparr>a_id = demo_id, title = Some ''Essay'',
      fileName = Some ''1700000000000-notes.txt'',
      filePath = Some ''/tmp/uploads/1700000000000-notes.txt'',
      question = Some ''Q1'', uploadDate = Some ''2024-01-01'', gsPaper = Some ''GS1'',
      source = Some ''mock'', mimeType = Some ''application/pdf''\<rparr>"

definition feb_record :: answer where
  "feb_record = demo_record\<lparr>a_id := feb_id, uploadDate := Some ''2024-02-01''\<rparr>"


definition demo_uri :: string where
  "demo_uri = ''mongodb://db/answers''"

definition demo_world :: world where
  "demo_world = startup (Some demo_uri) [] (\<lambda>p. None)"

definition unconfigured_world :: world where
  "unconfigured_world = startup None [] (\<lambda>p. None)"

definition two_world :: world where
  "two_world = startup (Some demo_uri) [demo_record, feb_record] (\<lambda>p. None)"

definition stored_world :: world where
  "stored_world =
     startup (Some demo_uri) [demo_record]
       [''/tmp/uploads/1700000000000-notes.txt'' \<mapsto> File ''%PDF-1.4'']"

definition orphan_world :: world where
  "orphan_world = startup (Some demo_uri) [demo_record] (\<lambda>p. None)"

definition passwd_world :: world where
  "passwd_world = startup (Some demo_uri) [] [''/etc/passwd'' \<mapsto> File ''root:x:0:0:'']"

section \<open>Properties\<close>

subsection \<open>Connection management\<close>

lemma connect_cached: "cachedDb w = Some db \<Longrightarrow> connectToDatabase w e = (Inr db, w)"
  by (simp add: connectToDatabase_def)

lemma connect_Inr_memo: "connectToDatabase w e = (Inr db, w') \<Longrightarrow> cachedDb w' = Some db"
  by (auto simp: connectToDatabase_def Let_def split: option.splits if_splits)

lemma connect_Inl_none:
  "connectToDatabase w e = (Inl err, w') \<Longrightarrow>
     cachedDb w' = None \<and> env_MONGO_URI w' = env_MONGO_URI w"
  by (auto simp: connectToDatabase_def Let_def split: option.splits if_splits)

lemma unlink_keeps:
  "cachedDb (unlink w e p) = cachedDb w" "connect_calls (unlink w e p) = connect_calls w"
  "collection (unlink w e p) = collection w"
  by (simp_all add: unlink_def Let_def split: option.splits)

lemma cleanup_keeps:
  "cachedDb (cleanup w e a) = cachedDb w" "connect_calls (cleanup w e a) = connect_calls w"
  "collection (cleanup w e a) = collection w"
  by (simp_all add: cleanup_def unlink_keeps split: option.splits)

lemma route_keeps_connection:
  "cachedDb (snd (route w e req)) = cachedDb w \<and>
   connect_calls (snd (route w e req)) = connect_calls w"
  by (cases req)
     (simp_all add: route_def get_answers_def post_upload_def upload_single_def delete_answer_def
        delete_found_def get_upload_def cleanup_keeps Let_def
        split: option.splits prod.splits sum.splits)

lemma app_cached:
  assumes "cachedDb w = Some db"
  shows "cachedDb (snd (app w e req)) = Some db \<and>
         connect_calls (snd (app w e req)) = connect_calls w"
  using assms route_keeps_connection [of w e req] by (simp add: app_def connect_cached)

lemma run_cached:
  "cachedDb w = Some db \<Longrightarrow>
     cachedDb (run w rs) = Some db \<and> connect_calls (run w rs) = connect_calls w"
proof (induction rs arbitrary: w)
  case Nil
  then show ?case by simp
next
  case (Cons r rs)
  obtain e req where r: "r = (e, req)" by (cases r)
  from Cons.prems have step: "cachedDb (snd (app w e req)) = Some db"
    and calls: "connect_calls (snd (app w e req)) = connect_calls w"
    using app_cached by blast+
  from Cons.IH [OF step] calls show ?case by (simp add: r)
qed

lemma gate_passes_app: "gate_passes w e \<Longrightarrow> app w e req = route (after_gate w e) e req"
  by (cases "connectToDatabase w e")
     (auto simp: gate_passes_def after_gate_def app_def split: sum.splits)

lemma gate_fails_app: "\<not> gate_passes w e \<Longrightarrow> status (fst (app w e req)) = 500"
  by (cases "connectToDatabase w e")
     (auto simp: gate_passes_def app_def split: sum.splits)

lemma after_gate_keeps:
  "collection (after_gate w e) = collection w"
  "fs (after_gate w e) = fs w"
  "unlink_calls (after_gate w e) = unlink_calls w"
  "next_id (after_gate w e) = next_id w"
  by (simp_all add: after_gate_def connectToDatabase_def Let_def split: option.splits)

lemma gate_passes_cached: "gate_passes w e \<Longrightarrow> cachedDb (after_gate w e) \<noteq> None"
  by (cases "connectToDatabase w e")
     (auto simp: gate_passes_def after_gate_def split: sum.splits dest: connect_Inr_memo)

lemma cached_gate_passes: "cachedDb w \<noteq> None \<Longrightarrow> gate_passes w e \<and> after_gate w e = w"
  by (auto simp: gate_passes_def after_gate_def connect_cached)

lemma demo_connect:
  "connectToDatabase demo_world demo_ext =
     (Inr 1, demo_world\<lparr>console := [''Connecting to MongoDB...'',
                                      ''Successfully connected to MongoDB Atlas!''],
                         connect_calls := 1, cachedDb := Some 1\<rparr>)"
  by (simp add: connectToDatabase_def demo_world_def demo_uri_def demo_ext_def startup_def)

lemma demo_refused:
  "connectToDatabase demo_world refused_ext =
     (Inl ''ECONNREFUSED'',
      demo_world\<lparr>console := [''Connecting to MongoDB...'',
                               ''MongoDB connection error: ECONNREFUSED''],
                  connect_calls := 1\<rparr>)"
  by (simp add: connectToDatabase_def demo_world_def demo_uri_def refused_ext_def demo_ext_def
      startup_def)

lemma demo_gate: "gate_passes demo_world demo_ext"
  by (simp add: gate_passes_def demo_connect)

lemma demo_ext_ok:
  "find_err demo_ext = None" "save_err demo_ext = None" "delete_err demo_ext = None"
  by (simp_all add: demo_ext_def)

text \<open>
  Claim C6.  The connection manager memoizes on success only.  When a call returns a
  handle, that handle is cached; after any further requests served by the same process,
  every call returns the same handle and leaves the state as it is, and the number of
  \<open>mongoose.connect\<close> calls has not grown.  When a call fails, nothing is cached: with a
  connection string configured, the next call invokes \<open>mongoose.connect\<close> again, and caches
  its handle if it succeeds.
\<close>

theorem connectToDatabase_memoizes:
  "(connectToDatabase w e = (Inr db, w') \<longrightarrow>
      cachedDb w' = Some db \<and>
      (\<forall>rs e'. connectToDatabase (run w' rs) e' = (Inr db, run w' rs) \<and>
               connect_calls (run w' rs) = connect_calls w')) \<and>
   (connectToDatabase w e = (Inl err, w') \<longrightarrow>
      cachedDb w' = None \<and>
      (\<forall>e' uri. env_MONGO_URI w = Some uri \<and> uri \<noteq> [] \<longrightarrow>
         connect_calls (snd (connectToDatabase w' e')) = Suc (connect_calls w') \<and>
         (connect_err e' = None \<longrightarrow>
            fst (connectToDatabase w' e') = Inr (Suc (connect_calls w')) \<and>
            cachedDb (snd (connectToDatabase w' e')) = Some (Suc (connect_calls w')))))"
proof (intro conjI impI)
  assume ok: "connectToDatabase w e = (Inr db, w')"
  then show memo: "cachedDb w' = Some db" by (rule connect_Inr_memo)
  show "\<forall>rs e'. connectToDatabase (run w' rs) e' = (Inr db, run w' rs) \<and>
               connect_calls (run w' rs) = connect_calls w'"
    using run_cached [OF memo] connect_cached by blast
next
  assume bad: "connectToDatabase w e = (Inl err, w')"
  then have none: "cachedDb w' = None" and env: "env_MONGO_URI w' = env_MONGO_URI w"
    using connect_Inl_none by blast+
  from none show "cachedDb w' = None" .
  show "\<forall>e' uri. env_MONGO_URI w = Some uri \<and> uri \<noteq> [] \<longrightarrow>
         connect_calls (snd (connectToDatabase w' e')) = Suc (connect_calls w') \<and>
         (connect_err e' = None \<longrightarrow>
            fst (connectToDatabase w' e') = Inr (Suc (connect_calls w')) \<and>
            cachedDb (snd (connectToDatabase w' e')) = Some (Suc (connect_calls w')))"
    using none env by (auto simp: connectToDatabase_def Let_def split: option.splits)
qed

theorem connectToDatabase_memoizes_witness:
  "fst (connectToDatabase demo_world demo_ext) = Inr 1 \<and>
   cachedDb (snd (connectToDatabase demo_world demo_ext)) = Some 1 \<and>
   fst (connectToDatabase
          (run (snd (connectToDatabase demo_world demo_ext)) [(refused_ext, GET_answers)])
          refused_ext) = Inr 1 \<and>
   connect_calls
     (run (snd (connectToDatabase demo_world demo_ext)) [(refused_ext, GET_answers)]) = 1 \<and>
   fst (connectToDatabase demo_world refused_ext) = Inl ''ECONNREFUSED'' \<and>
   cachedDb (snd (connectToDatabase demo_world refused_ext)) = None \<and>
   connect_calls
     (snd (connectToDatabase (snd (connectToDatabase demo_world refused_ext)) demo_ext)) = 2 \<and>
   fst (connectToDatabase (snd (connectToDatabase demo_world refused_ext)) demo_ext) = Inr 2"
proof -
  let ?w1 = "snd (connectToDatabase demo_world demo_ext)"
  let ?w2 = "snd (connectToDatabase demo_world refused_ext)"
  have a: "connectToDatabase demo_world demo_ext = (Inr 1, ?w1)"
    by (simp add: demo_connect)
  have b: "connectToDatabase demo_world refused_ext = (Inl ''ECONNREFUSED'', ?w2)"
    by (simp add: demo_refused)
  have c1: "connect_calls ?w1 = 1" by (simp add: demo_connect)
  have c2: "connect_calls ?w2 = 1" by (simp add: demo_refused)
  have u: "env_MONGO_URI demo_world = Some demo_uri \<and> demo_uri \<noteq> []"
    by (simp add: demo_world_def startup_def demo_uri_def)
  have n: "connect_err demo_ext = None" by (simp add: demo_ext_def)
  from connectToDatabase_memoizes [where w = demo_world and e = demo_ext and db = 1 and w' = ?w1]
    a have s: "cachedDb ?w1 = Some 1"
    and r: "\<forall>rs e'. connectToDatabase (run ?w1 rs) e' = (Inr 1, run ?w1 rs) \<and>
               connect_calls (run ?w1 rs) = connect_calls ?w1"
    by blast+
  from connectToDatabase_memoizes [where w = demo_world and e = refused_ext
      and err = "''ECONNREFUSED''" and w' = ?w2] b u n
  have f: "cachedDb ?w2 = None"
    and g: "connect_calls (snd (connectToDatabase ?w2 demo_ext)) = Suc (connect_calls ?w2)"
    and h: "fst (connectToDatabase ?w2 demo_ext) = Inr (Suc (connect_calls ?w2))"
    by blast+
  from r have rr: "connectToDatabase (run ?w1 [(refused_ext, GET_answers)]) refused_ext =
        (Inr 1, run ?w1 [(refused_ext, GET_answers)]) \<and>
      connect_calls (run ?w1 [(refused_ext, GET_answers)]) = connect_calls ?w1"
    by blast
  then have r1: "fst (connectToDatabase (run ?w1 [(refused_ext, GET_answers)]) refused_ext) = Inr 1"
    and r2: "connect_calls (run ?w1 [(refused_ext, GET_answers)]) = connect_calls ?w1"
    by (simp_all del: run.simps)
  have a1: "fst (connectToDatabase demo_world demo_ext) = Inr 1"
    by (simp add: demo_connect)
  have b1: "fst (connectToDatabase demo_world refused_ext) = Inl ''ECONNREFUSED''"
    by (simp add: demo_refused)
  from g c2 have g': "connect_calls (snd (connectToDatabase ?w2 demo_ext)) = 2" by simp
  from h c2 have h': "fst (connectToDatabase ?w2 demo_ext) = Inr 2" by simp
  from r2 c1 have r2': "connect_calls (run ?w1 [(refused_ext, GET_answers)]) = 1" by simp
  from a1 s r1 r2' b1 f g' h' show ?thesis by (intro conjI)
qed

text \<open>
  Claim C7.  With no connection string configured and nothing cached, the connection
  manager fails with the configuration error, and the middleware in front of the routes
  answers the request, whichever route it is for, with status 500 and a JSON body; the state changes only by the logged
  line, so no route handler has run.  Loading the module neither fails nor logs nor
  connects: the error appears with the first request.
\<close>

theorem missing_uri_rejected_by_gate:
  assumes "env_MONGO_URI w = None" and "cachedDb w = None"
  shows "fst (connectToDatabase w e) = Inl ''MONGO_URI environment variable is not set.'' \<and>
         app w e req =
           (\<lparr>status = 500,
             body = Json (JError ''Database connection failed''
                                 ''MONGO_URI environment variable is not set.'')\<rparr>,
            w\<lparr>console := console w @
                 [''MongoDB connection error: MONGO_URI environment variable is not set.'']\<rparr>) \<and>
         env_MONGO_URI (startup None docs f) = None \<and>
         cachedDb (startup None docs f) = None \<and>
         connect_calls (startup None docs f) = 0 \<and>
         console (startup None docs f) = []"
  using assms by (simp add: app_def connectToDatabase_def startup_def)

theorem missing_uri_rejected_by_gate_witness:
  "env_MONGO_URI unconfigured_world = None \<and> cachedDb unconfigured_world = None \<and>
   app unconfigured_world demo_ext (POST_upload demo_form (Some demo_file)) =
     (\<lparr>status = 500,
       body = Json (JError ''Database connection failed''
                           ''MONGO_URI environment variable is not set.'')\<rparr>,
      unconfigured_world\<lparr>console := console unconfigured_world @
         [''MongoDB connection error: MONGO_URI environment variable is not set.'']\<rparr>)"
proof -
  have h1: "env_MONGO_URI unconfigured_world = None"
    by (simp add: unconfigured_world_def startup_def)
  have h2: "cachedDb unconfigured_world = None"
    by (simp add: unconfigured_world_def startup_def)
  from missing_uri_rejected_by_gate [OF h1 h2, of demo_ext "POST_upload demo_form (Some demo_file)"]
  have "app unconfigured_world demo_ext (POST_upload demo_form (Some demo_file)) =
     (\<lparr>status = 500,
       body = Json (JError ''Database connection failed''
                           ''MONGO_URI environment variable is not set.'')\<rparr>,
      unconfigured_world\<lparr>console := console unconfigured_world @
         [''MongoDB connection error: MONGO_URI environment variable is not set.'']\<rparr>)"
    by blast
  with h1 h2 show ?thesis by (intro conjI)
qed

subsection \<open>Paths and generated names\<close>

lemma uploadDir_eq: "uploadDir = ''/tmp/uploads''"
  by (simp add: uploadDir_def path_join_def path_normalize_def)

lemma split_slash_no_slash: "CHR ''/'' \<notin> set s \<Longrightarrow> split_slash s = [s]"
  by (induction s) auto

lemma digit_in: "d < 10 \<Longrightarrow> digit d \<in> set ''0123456789''"
  unfolding digit_def by (rule nth_mem) simp

lemma show_nat_digits: "set (show_nat n) \<subseteq> set ''0123456789''"
proof (induction n rule: show_nat.induct)
  case (1 n)
  show ?case
  proof (cases "n < 10")
    case True
    then show ?thesis using digit_in [of n] by (subst show_nat.simps) simp
  next
    case False
    have "n mod 10 < 10" by simp
    with False 1 digit_in [of "n mod 10"] show ?thesis
      by (subst show_nat.simps) simp
  qed
qed

lemma show_nat_no_slash: "CHR ''/'' \<notin> set (show_nat n)"
  using show_nat_digits [of n] by auto

lemma storage_filename_plain:
  assumes "CHR ''/'' \<notin> set (originalname f)"
  shows "CHR ''/'' \<notin> set (storage_filename e f)"
    and "storage_filename e f \<noteq> []"
    and "storage_filename e f \<noteq> ''.''"
    and "storage_filename e f \<noteq> ''..''"
proof -
  show "CHR ''/'' \<notin> set (storage_filename e f)"
    using assms show_nat_no_slash by (simp add: storage_filename_def)
  have dash: "CHR ''-'' \<in> set (storage_filename e f)"
    by (simp add: storage_filename_def)
  then show "storage_filename e f \<noteq> []" by auto
  from dash show "storage_filename e f \<noteq> ''.''" by auto
  from dash show "storage_filename e f \<noteq> ''..''" by auto
qed

text \<open>A single ordinary segment is appended to the upload directory as it is.\<close>

lemma path_join_plain:
  assumes "CHR ''/'' \<notin> set name" and "name \<noteq> []" and "name \<noteq> ''.''" and "name \<noteq> ''..''"
  shows "path_join [uploadDir, name] = ''/tmp/uploads/'' @ name"
proof -
  from assms have l: "last name \<noteq> CHR ''/''"
    using last_in_set by metis
  show ?thesis
    using assms l
    by (simp add: uploadDir_eq path_join_def path_normalize_def split_slash_no_slash)
qed

lemma stored_path:
  "CHR ''/'' \<notin> set (originalname f) \<Longrightarrow>
     path_join [uploadDir, storage_filename e f] = ''/tmp/uploads/'' @ storage_filename e f"
  using storage_filename_plain [of f e] by (simp add: path_join_plain)

lemma traversal_path: "path_join [uploadDir, ''../../etc/passwd''] = ''/etc/passwd''"
  by (simp add: uploadDir_eq path_join_def path_normalize_def)

lemma demo_now: "show_nat (now demo_ext) = ''1700000000000''"
  by (simp add: demo_ext_def show_nat.simps digit_def)

lemma demo_file_fields:
  "originalname demo_file = ''notes.txt''" "mimetype demo_file = ''application/pdf''"
  "content demo_file = ''%PDF-1.4''"
  by (simp_all add: demo_file_def)

lemma demo_name: "storage_filename demo_ext demo_file = ''1700000000000-notes.txt''"
  by (simp add: storage_filename_def demo_now demo_file_fields)

lemma demo_plain: "CHR ''/'' \<notin> set (originalname demo_file)"
  by (simp add: demo_file_fields)

lemma demo_named: "originalname demo_file \<noteq> []"
  by (simp add: demo_file_fields)

lemma new_id_zero: "new_object_id 0 = demo_id"
  by (simp add: new_object_id_def show_nat.simps digit_def demo_id_def)

lemma show_nat_nonempty: "show_nat n \<noteq> []"
  by (subst show_nat.simps) simp

lemma hd_storage_filename: "hd (storage_filename e f) \<noteq> CHR ''.''"
proof -
  have "hd (show_nat (now e)) \<in> set (show_nat (now e))"
    using show_nat_nonempty by (rule hd_in_set)
  with show_nat_digits [of "now e"] have "hd (show_nat (now e)) \<noteq> CHR ''.''" by auto
  then show ?thesis using show_nat_nonempty [of "now e"] by (simp add: storage_filename_def)
qed

lemma stored_no_dot:
  "CHR ''/'' \<notin> set (originalname f) \<Longrightarrow>
     \<not> containsDotFile (split_slash (''/tmp/uploads/'' @ storage_filename e f))"
  using storage_filename_plain(1) [of f e] hd_storage_filename [of e f]
  by (simp add: containsDotFile_def split_slash_no_slash)

subsection \<open>Upload\<close>

lemma post_upload_status:
  "status (fst (post_upload w e b part)) = 201 \<longleftrightarrow> save_err e = None"
  by (simp add: post_upload_def Let_def split: prod.splits option.splits)

lemma upload_201_iff:
  "status (fst (app w e (POST_upload b part))) = 201 \<longleftrightarrow> gate_passes w e \<and> save_err e = None"
proof (cases "gate_passes w e")
  case True
  then show ?thesis by (simp add: gate_passes_app route_def post_upload_status)
next
  case False
  then show ?thesis using gate_fails_app [of w e "POST_upload b part"] by simp
qed

lemma demo_created:
  "status (fst (app demo_world demo_ext (POST_upload demo_form part))) = 201"
  by (simp add: upload_201_iff demo_gate demo_ext_ok)




text \<open>
  Claim C2.  An upload request with no file part succeeds whenever the connection is
  there and the save does not fail: the response is 201 with the created record, whose \<open>fileName\<close>,
  \<open>filePath\<close> and \<open>mimeType\<close> are all null; the record is appended to the collection and
  no file is written.
\<close>

theorem upload_without_file_record:
  assumes "gate_passes w e" and "save_err e = None"
  shows "\<exists>r. fst (app w e (POST_upload b None)) = \<lparr>status = 201, body = Json (JAnswer r)\<rparr> \<and>
             fileName r = None \<and> filePath r = None \<and> mimeType r = None \<and>
             collection (snd (app w e (POST_upload b None))) = collection w @ [r] \<and>
             fs (snd (app w e (POST_upload b None))) = fs w"
  using assms
  by (simp add: gate_passes_app route_def post_upload_def upload_single_def new_answer_def Let_def
      after_gate_keeps)

theorem upload_without_file_record_witness:
  "gate_passes demo_world demo_ext \<and> save_err demo_ext = None \<and>
   (\<exists>r. fst (app demo_world demo_ext (POST_upload demo_form None)) =
          \<lparr>status = 201, body = Json (JAnswer r)\<rparr> \<and>
        fileName r = None \<and> filePath r = None \<and> mimeType r = None \<and>
        collection (snd (app demo_world demo_ext (POST_upload demo_form None))) =
          collection demo_world @ [r] \<and>
        fs (snd (app demo_world demo_ext (POST_upload demo_form None))) = fs demo_world)"
  using demo_gate demo_ext_ok(2) upload_without_file_record [OF demo_gate demo_ext_ok(2), of demo_form]
  by (intro conjI)

subsection \<open>Listing\<close>

lemma mset_insert_desc: "mset (insert_desc a bs) = add_mset a (mset bs)"
  by (induction bs) auto

lemma mset_sort_desc: "mset (sort_desc as) = mset as"
  by (induction as) (auto simp: mset_insert_desc)

lemma set_insert_desc: "set (insert_desc a bs) = insert a (set bs)"
  by (induction bs) auto

lemma descending_insert_desc: "descending bs \<Longrightarrow> descending (insert_desc a bs)"
  by (induction bs) (auto simp: descending_def set_insert_desc)

lemma descending_sort_desc: "descending (sort_desc as)"
proof (induction as)
  case Nil
  show ?case by (simp add: descending_def)
next
  case (Cons a as)
  then show ?case by (simp add: descending_insert_desc)
qed

text \<open>
  Claim C3.  When the connection is there and the query does not fail, the list route answers 200
  with all stored records (the same records with the same multiplicities) in descending
  order of \<open>uploadDate\<close>, compared as strings character by character; with the two records
  dated 2024-01-01 and 2024-02-01 stored, in either order, the 2024-02-01 record is first.
\<close>

theorem list_sorted_by_uploadDate_desc:
  assumes "gate_passes w e" and "find_err e = None"
  shows "\<exists>as. fst (app w e GET_answers) = \<lparr>status = 200, body = Json (JAnswers as)\<rparr> \<and>
              mset as = mset (collection w) \<and> descending as \<and>
              (\<forall>a b. uploadDate a = Some ''2024-01-01'' \<and> uploadDate b = Some ''2024-02-01'' \<and>
                     (collection w = [a, b] \<or> collection w = [b, a]) \<longrightarrow> as = [b, a])"
proof -
  let ?as = "sort_desc (collection w)"
  have resp: "fst (app w e GET_answers) = \<lparr>status = 200, body = Json (JAnswers ?as)\<rparr>"
    using assms by (simp add: gate_passes_app route_def get_answers_def after_gate_keeps)
  have ex: "\<forall>a b. uploadDate a = Some ''2024-01-01'' \<and> uploadDate b = Some ''2024-02-01'' \<and>
                     (collection w = [a, b] \<or> collection w = [b, a]) \<longrightarrow> ?as = [b, a]"
    by auto
  from resp mset_sort_desc descending_sort_desc ex show ?thesis by blast
qed

lemma two_gate: "gate_passes two_world demo_ext"
  by (simp add: gate_passes_def connectToDatabase_def two_world_def demo_uri_def demo_ext_def
      startup_def)

lemma two_collection: "collection two_world = [demo_record, feb_record]"
  by (simp add: two_world_def startup_def)

theorem list_sorted_by_uploadDate_desc_witness:
  "gate_passes two_world demo_ext \<and> find_err demo_ext = None \<and>
   collection two_world = [demo_record, feb_record] \<and>
   uploadDate demo_record = Some ''2024-01-01'' \<and> uploadDate feb_record = Some ''2024-02-01'' \<and>
   fst (app two_world demo_ext GET_answers) =
     \<lparr>status = 200, body = Json (JAnswers [feb_record, demo_record])\<rparr>"
proof -
  have d1: "uploadDate demo_record = Some ''2024-01-01''" by (simp add: demo_record_def)
  have d2: "uploadDate feb_record = Some ''2024-02-01''" by (simp add: feb_record_def)
  from list_sorted_by_uploadDate_desc [OF two_gate demo_ext_ok(1)] obtain as where
    r: "fst (app two_world demo_ext GET_answers) = \<lparr>status = 200, body = Json (JAnswers as)\<rparr>"
    and o: "\<forall>a b. uploadDate a = Some ''2024-01-01'' \<and> uploadDate b = Some ''2024-02-01'' \<and>
                (collection two_world = [a, b] \<or> collection two_world = [b, a]) \<longrightarrow> as = [b, a]"
    by blast
  from o d1 d2 two_collection have "as = [feb_record, demo_record]" by blast
  with r have "fst (app two_world demo_ext GET_answers) =
     \<lparr>status = 200, body = Json (JAnswers [feb_record, demo_record])\<rparr>" by simp
  with two_gate demo_ext_ok(1) two_collection d1 d2 show ?thesis by (intro conjI)
qed

subsection \<open>Deleting\<close>

lemma find_doc_mem: "find_doc as oid = Some a \<Longrightarrow> a \<in> set as \<and> a_id a = oid"
  by (induction as) (auto split: if_splits)

lemma find_doc_none_iff: "find_doc as oid = None \<longleftrightarrow> oid \<notin> a_id ` set as"
  by (induction as) auto

lemma mset_remove_doc:
  "find_doc as oid = Some a \<Longrightarrow> mset (remove_doc as oid) = mset as - {#a#}"
proof (induction as)
  case Nil
  then show ?case by simp
next
  case (Cons b as)
  show ?case
  proof (cases "a_id b = oid")
    case True
    with Cons.prems show ?thesis by simp
  next
    case False
    with Cons.prems have f: "find_doc as oid = Some a" by simp
    from find_doc_mem [OF f] False have ne: "a \<noteq> b" by auto
    have "mset (remove_doc (b # as) oid) = add_mset b (mset as - {#a#})"
      using False Cons.IH [OF f] by simp
    also have "\<dots> = add_mset b (mset as) - {#a#}"
      using ne by (rule diff_union_swap)
    also have "\<dots> = mset (b # as) - {#a#}" by simp
    finally show ?thesis .
  qed
qed

lemma remove_doc_gone:
  "distinct (map a_id as) \<Longrightarrow> find_doc (remove_doc as oid) oid = None"
  by (induction as) (auto simp: find_doc_none_iff)

lemma findById_found:
  "findById as i = Inr (Some a) \<Longrightarrow> \<exists>oid. castObjectId i = Some oid \<and> find_doc as oid = Some a"
  by (auto simp: findById_def split: option.splits)

lemma mset_deleteById:
  assumes "findById as i = Inr (Some a)"
  shows "mset (deleteById as i) = mset as - {#a#}"
proof -
  from findById_found [OF assms] obtain oid where
    c: "castObjectId i = Some oid" and f: "find_doc as oid = Some a" by blast
  from mset_remove_doc [OF f] c show ?thesis by (simp add: deleteById_def)
qed

lemma deleteById_gone:
  assumes "distinct (map a_id as)" and "findById as i = Inr (Some a)"
  shows "findById (deleteById as i) i = Inr None"
proof -
  from findById_found [OF assms(2)] obtain oid where c: "castObjectId i = Some oid" by blast
  from remove_doc_gone [OF assms(1), of oid] c show ?thesis
    by (simp add: findById_def deleteById_def)
qed

lemma delete_missing_response:
  assumes "gate_passes w e" and "find_err e = None" and "findById (collection w) i = Inr None"
  shows "fst (app w e (DELETE_answer i)) = \<lparr>status = 404, body = Text ''Answer not found''\<rparr>"
  using assms by (simp add: gate_passes_app route_def delete_answer_def after_gate_keeps)

lemma delete_malformed_response:
  assumes "gate_passes w e" and "findById (collection w) i = Inl err"
  shows "fst (app w e (DELETE_answer i)) =
           \<lparr>status = 500, body = Json (JError ''Error deleting answer'' err)\<rparr>"
  using assms by (simp add: gate_passes_app route_def delete_answer_def after_gate_keeps)

lemma delete_unmatched_state:
  assumes "\<forall>a. findById (collection w) i \<noteq> Inr (Some a)"
  shows "snd (route w e (DELETE_answer i)) = w"
proof (cases "findById (collection w) i")
  case (Inl err)
  then show ?thesis by (simp add: route_def delete_answer_def)
next
  case (Inr found)
  with assms have "found = None" by (cases found) auto
  with Inr show ?thesis by (simp add: route_def delete_answer_def split: option.splits)
qed

lemma cast_unknown: "castObjectId unknown_id = Some unknown_id"
  by (simp add: castObjectId_def unknown_id_def is_hex_def to_lower_def)

lemma cast_demo: "castObjectId demo_id = Some demo_id"
  by (simp add: castObjectId_def demo_id_def is_hex_def to_lower_def)

lemma cast_42: "castObjectId ''42'' = None"
  by (simp add: castObjectId_def)

lemma ids_differ: "demo_id \<noteq> unknown_id" "feb_id \<noteq> unknown_id" "demo_id \<noteq> feb_id"
  by (simp_all add: demo_id_def feb_id_def unknown_id_def)

lemma two_unknown: "findById (collection two_world) unknown_id = Inr None"
  by (simp add: findById_def cast_unknown two_collection demo_record_def feb_record_def
      ids_differ)

lemma two_malformed: "findById (collection two_world) ''42'' = Inl (cast_error ''42'')"
  by (simp add: findById_def cast_42)

text \<open>
  Claim C4, as the code has it.  A delete request whose identifier matches no stored
  record leaves the collection and the files as they are and calls no \<open>fs.unlink\<close>.  When
  the connection is there, the identifier is a well-formed ObjectId and the lookup does
  not fail, the response is 404.  When the identifier is not a well-formed ObjectId, the
  cast in \<open>findById\<close> throws and the response is the 500 of the \<open>catch\<close> branch.
\<close>

theorem delete_missing_not_found:
  assumes "\<forall>a. findById (collection w) i \<noteq> Inr (Some a)"
  shows "collection (snd (app w e (DELETE_answer i))) = collection w \<and>
         fs (snd (app w e (DELETE_answer i))) = fs w \<and>
         unlink_calls (snd (app w e (DELETE_answer i))) = unlink_calls w \<and>
         (gate_passes w e \<and> find_err e = None \<and> findById (collection w) i = Inr None \<longrightarrow>
            fst (app w e (DELETE_answer i)) = \<lparr>status = 404, body = Text ''Answer not found''\<rparr>) \<and>
         (\<forall>err. gate_passes w e \<and> findById (collection w) i = Inl err \<longrightarrow>
            fst (app w e (DELETE_answer i)) =
              \<lparr>status = 500, body = Json (JError ''Error deleting answer'' err)\<rparr>)"
proof -
  have state: "collection (snd (app w e (DELETE_answer i))) = collection w \<and>
         fs (snd (app w e (DELETE_answer i))) = fs w \<and>
         unlink_calls (snd (app w e (DELETE_answer i))) = unlink_calls w"
  proof (cases "gate_passes w e")
    case True
    from assms have "\<forall>a. findById (collection (after_gate w e)) i \<noteq> Inr (Some a)"
      by (simp add: after_gate_keeps)
    from delete_unmatched_state [OF this] True show ?thesis
      by (simp add: gate_passes_app after_gate_keeps)
  next
    case False
    have k: "collection (snd (connectToDatabase w e)) = collection w"
      "fs (snd (connectToDatabase w e)) = fs w"
      "unlink_calls (snd (connectToDatabase w e)) = unlink_calls w"
      using after_gate_keeps [of w e] by (simp_all add: after_gate_def)
    from False k show ?thesis
      by (cases "connectToDatabase w e")
         (auto simp: gate_passes_def app_def split: sum.splits)
  qed
  have nf: "gate_passes w e \<and> find_err e = None \<and> findById (collection w) i = Inr None \<longrightarrow>
            fst (app w e (DELETE_answer i)) = \<lparr>status = 404, body = Text ''Answer not found''\<rparr>"
    using delete_missing_response by blast
  have bad: "\<forall>err. gate_passes w e \<and> findById (collection w) i = Inl err \<longrightarrow>
            fst (app w e (DELETE_answer i)) =
              \<lparr>status = 500, body = Json (JError ''Error deleting answer'' err)\<rparr>"
    using delete_malformed_response by blast
  from state nf bad show ?thesis by (intro conjI) blast+
qed

theorem delete_missing_not_found_witness:
  "findById (collection two_world) unknown_id = Inr None \<and>
   gate_passes two_world demo_ext \<and> find_err demo_ext = None \<and>
   fst (app two_world demo_ext (DELETE_answer unknown_id)) =
     \<lparr>status = 404, body = Text ''Answer not found''\<rparr> \<and>
   collection (snd (app two_world demo_ext (DELETE_answer unknown_id))) =
     [demo_record, feb_record] \<and>
   fs (snd (app two_world demo_ext (DELETE_answer unknown_id))) = fs two_world \<and>
   unlink_calls (snd (app two_world demo_ext (DELETE_answer unknown_id))) =
     unlink_calls two_world \<and>
   findById (collection two_world) ''42'' = Inl (cast_error ''42'') \<and>
   fst (app two_world demo_ext (DELETE_answer ''42'')) =
     \<lparr>status = 500, body = Json (JError ''Error deleting answer'' (cast_error ''42''))\<rparr> \<and>
   collection (snd (app two_world demo_ext (DELETE_answer ''42''))) = [demo_record, feb_record]"
proof -
  have h1: "\<forall>a. findById (collection two_world) unknown_id \<noteq> Inr (Some a)"
    by (simp add: two_unknown)
  have h2: "\<forall>a. findById (collection two_world) ''42'' \<noteq> Inr (Some a)"
    by (simp add: two_malformed)
  note t1 = delete_missing_not_found [OF h1, of demo_ext]
  note t2 = delete_missing_not_found [OF h2, of demo_ext]
  from t1 two_gate demo_ext_ok(1) two_unknown
  have a: "fst (app two_world demo_ext (DELETE_answer unknown_id)) =
     \<lparr>status = 404, body = Text ''Answer not found''\<rparr>" by blast
  from t1 have b: "collection (snd (app two_world demo_ext (DELETE_answer unknown_id))) =
       [demo_record, feb_record]"
    and c: "fs (snd (app two_world demo_ext (DELETE_answer unknown_id))) = fs two_world"
    and d: "unlink_calls (snd (app two_world demo_ext (DELETE_answer unknown_id))) =
       unlink_calls two_world"
    by (simp_all add: two_collection)
  from t2 two_gate two_malformed
  have f: "fst (app two_world demo_ext (DELETE_answer ''42'')) =
     \<lparr>status = 500, body = Json (JError ''Error deleting answer'' (cast_error ''42''))\<rparr>"
    by blast
  from t2 have g: "collection (snd (app two_world demo_ext (DELETE_answer ''42''))) =
       [demo_record, feb_record]"
    by (simp add: two_collection)
  from two_unknown two_gate demo_ext_ok(1) a b c d two_malformed f g
  show ?thesis by (intro conjI)
qed

text \<open>
  The claim as the specification words it fails for an identifier that is not a
  well-formed ObjectId: \<open>42\<close> matches no stored record, and the response is the 500 of the
  \<open>catch\<close> branch with the cast error's message, not a not-found status.
\<close>

theorem delete_malformed_id_counterexample:
  "''42'' \<notin> a_id ` set (collection two_world) \<and>
   fst (app two_world demo_ext (DELETE_answer ''42'')) =
     \<lparr>status = 500, body = Json (JError ''Error deleting answer'' (cast_error ''42''))\<rparr> \<and>
   status (fst (app two_world demo_ext (DELETE_answer ''42''))) \<noteq> 404"
proof -
  have a: "''42'' \<notin> a_id ` set (collection two_world)"
    by (simp add: two_collection demo_record_def feb_record_def demo_id_def feb_id_def)
  have r: "fst (app two_world demo_ext (DELETE_answer ''42'')) =
     \<lparr>status = 500, body = Json (JError ''Error deleting answer'' (cast_error ''42''))\<rparr>"
    using two_gate two_malformed by (rule delete_malformed_response)
  then have n: "status (fst (app two_world demo_ext (DELETE_answer ''42''))) \<noteq> 404" by simp
  from a r n show ?thesis by (intro conjI)
qed

text \<open>
  Claim C5.  When the connection is there, the identifier matches a stored record and neither
  store call fails, the delete route answers 200 with the success message and removes that
  record (exactly one occurrence; with distinct identifiers no record of that identifier
  is left), whatever the state of the file and whatever \<open>fs.unlink\<close> does.  If the record's
  \<open>filePath\<close> does not exist, no \<open>fs.unlink\<close> is called and the files are untouched.  If the
  file exists and \<open>fs.unlink\<close> fails, the call is made, the failure is logged, and the files
  are as before.
\<close>

theorem delete_existing_succeeds:
  assumes gate: "gate_passes w e" and find: "find_err e = None" and del: "delete_err e = None"
    and stored: "findById (collection w) i = Inr (Some a)"
  shows "fst (app w e (DELETE_answer i)) =
           \<lparr>status = 200, body = Json (JMessage ''Answer deleted successfully'')\<rparr> \<and>
         collection (snd (app w e (DELETE_answer i))) = deleteById (collection w) i \<and>
         mset (collection (snd (app w e (DELETE_answer i)))) = mset (collection w) - {#a#} \<and>
         (distinct (map a_id (collection w)) \<longrightarrow>
            findById (collection (snd (app w e (DELETE_answer i)))) i = Inr None) \<and>
         (\<forall>p. filePath a = Some p \<and> \<not> existsSync (fs w) p \<longrightarrow>
            unlink_calls (snd (app w e (DELETE_answer i))) = unlink_calls w \<and>
            fs (snd (app w e (DELETE_answer i))) = fs w) \<and>
         (\<forall>p err. filePath a = Some p \<and> p \<noteq> [] \<and> existsSync (fs w) p \<and>
                  unlink_err e = Some err \<longrightarrow>
            unlink_calls (snd (app w e (DELETE_answer i))) = unlink_calls w @ [p] \<and>
            fs (snd (app w e (DELETE_answer i))) = fs w \<and>
            console (snd (app w e (DELETE_answer i))) =
              console (after_gate w e) @ [''Error deleting temp file: '' @ err])"
proof -
  let ?w1 = "after_gate w e"
  have run: "app w e (DELETE_answer i) =
      (\<lparr>status = 200, body = Json (JMessage ''Answer deleted successfully'')\<rparr>,
       (cleanup ?w1 e a)\<lparr>collection := deleteById (collection w) i\<rparr>)"
    using assms
    by (simp add: gate_passes_app route_def delete_answer_def delete_found_def after_gate_keeps
        cleanup_keeps Let_def)
  have c1: "\<forall>p. filePath a = Some p \<and> \<not> existsSync (fs w) p \<longrightarrow>
      unlink_calls (cleanup ?w1 e a) = unlink_calls w \<and> fs (cleanup ?w1 e a) = fs w"
    by (simp add: cleanup_def after_gate_keeps)
  have c2: "\<forall>p err. filePath a = Some p \<and> p \<noteq> [] \<and> existsSync (fs w) p \<and>
                  unlink_err e = Some err \<longrightarrow>
      unlink_calls (cleanup ?w1 e a) = unlink_calls w @ [p] \<and> fs (cleanup ?w1 e a) = fs w \<and>
      console (cleanup ?w1 e a) = console ?w1 @ [''Error deleting temp file: '' @ err]"
    by (simp add: cleanup_def unlink_def unlink_result_def after_gate_keeps Let_def)
  have r: "fst (app w e (DELETE_answer i)) =
           \<lparr>status = 200, body = Json (JMessage ''Answer deleted successfully'')\<rparr>"
    by (simp add: run)
  have k: "collection (snd (app w e (DELETE_answer i))) = deleteById (collection w) i"
    "unlink_calls (snd (app w e (DELETE_answer i))) = unlink_calls (cleanup ?w1 e a)"
    "fs (snd (app w e (DELETE_answer i))) = fs (cleanup ?w1 e a)"
    "console (snd (app w e (DELETE_answer i))) = console (cleanup ?w1 e a)"
    by (simp_all add: run)
  have m: "mset (deleteById (collection w) i) = mset (collection w) - {#a#}"
    using stored by (rule mset_deleteById)
  have g: "distinct (map a_id (collection w)) \<longrightarrow>
             findById (deleteById (collection w) i) i = Inr None"
    using deleteById_gone [OF _ stored] by blast
  show ?thesis
  proof (intro conjI)
    show "fst (app w e (DELETE_answer i)) =
           \<lparr>status = 200, body = Json (JMessage ''Answer deleted successfully'')\<rparr>"
      by (rule r)
    show "collection (snd (app w e (DELETE_answer i))) = deleteById (collection w) i"
      by (rule k(1))
    show "mset (collection (snd (app w e (DELETE_answer i)))) = mset (collection w) - {#a#}"
      unfolding k(1) by (rule m)
    show "distinct (map a_id (collection w)) \<longrightarrow>
            findById (collection (snd (app w e (DELETE_answer i)))) i = Inr None"
      unfolding k(1) by (rule g)
    show "\<forall>p. filePath a = Some p \<and> \<not> existsSync (fs w) p \<longrightarrow>
            unlink_calls (snd (app w e (DELETE_answer i))) = unlink_calls w \<and>
            fs (snd (app w e (DELETE_answer i))) = fs w"
      unfolding k by (rule c1)
    show "\<forall>p err. filePath a = Some p \<and> p \<noteq> [] \<and> existsSync (fs w) p \<and>
                  unlink_err e = Some err \<longrightarrow>
            unlink_calls (snd (app w e (DELETE_answer i))) = unlink_calls w @ [p] \<and>
            fs (snd (app w e (DELETE_answer i))) = fs w \<and>
            console (snd (app w e (DELETE_answer i))) =
              console (after_gate w e) @ [''Error deleting temp file: '' @ err]"
      unfolding k by (rule c2)
  qed
qed

lemma eacces_ext_fields:
  "find_err eacces_ext = None" "delete_err eacces_ext = None"
  "unlink_err eacces_ext = Some ''EACCES''"
  by (simp_all add: eacces_ext_def demo_ext_def)

lemma stored_gate: "gate_passes stored_world eacces_ext"
  by (simp add: gate_passes_def connectToDatabase_def stored_world_def demo_uri_def
      eacces_ext_def demo_ext_def startup_def)

lemma orphan_gate: "gate_passes orphan_world demo_ext"
  by (simp add: gate_passes_def connectToDatabase_def orphan_world_def demo_uri_def
      demo_ext_def startup_def)

lemma stored_found: "findById (collection stored_world) demo_id = Inr (Some demo_record)"
  by (simp add: findById_def cast_demo stored_world_def startup_def demo_record_def)

lemma orphan_found: "findById (collection orphan_world) demo_id = Inr (Some demo_record)"
  by (simp add: findById_def cast_demo orphan_world_def startup_def demo_record_def)

lemma demo_record_path: "filePath demo_record = Some ''/tmp/uploads/1700000000000-notes.txt''"
  by (simp add: demo_record_def)

lemma stored_exists: "existsSync (fs stored_world) ''/tmp/uploads/1700000000000-notes.txt''"
  by (simp add: stored_world_def startup_def existsSync_def mkdirSync_recursive_def uploadDir_eq)

lemma orphan_absent: "\<not> existsSync (fs orphan_world) ''/tmp/uploads/1700000000000-notes.txt''"
  by (simp add: orphan_world_def startup_def existsSync_def mkdirSync_recursive_def uploadDir_eq)

theorem delete_existing_succeeds_witness:
  "gate_passes stored_world eacces_ext \<and> find_err eacces_ext = None \<and>
   delete_err eacces_ext = None \<and>
   findById (collection stored_world) demo_id = Inr (Some demo_record) \<and>
   existsSync (fs stored_world) ''/tmp/uploads/1700000000000-notes.txt'' \<and>
   unlink_err eacces_ext = Some ''EACCES'' \<and>
   fst (app stored_world eacces_ext (DELETE_answer demo_id)) =
     \<lparr>status = 200, body = Json (JMessage ''Answer deleted successfully'')\<rparr> \<and>
   collection (snd (app stored_world eacces_ext (DELETE_answer demo_id))) = [] \<and>
   unlink_calls (snd (app stored_world eacces_ext (DELETE_answer demo_id))) =
     [''/tmp/uploads/1700000000000-notes.txt''] \<and>
   fs (snd (app stored_world eacces_ext (DELETE_answer demo_id))) = fs stored_world \<and>
   gate_passes orphan_world demo_ext \<and>
   findById (collection orphan_world) demo_id = Inr (Some demo_record) \<and>
   \<not> existsSync (fs orphan_world) ''/tmp/uploads/1700000000000-notes.txt'' \<and>
   fst (app orphan_world demo_ext (DELETE_answer demo_id)) =
     \<lparr>status = 200, body = Json (JMessage ''Answer deleted successfully'')\<rparr> \<and>
   findById (collection (snd (app orphan_world demo_ext (DELETE_answer demo_id)))) demo_id =
     Inr None \<and>
   unlink_calls (snd (app orphan_world demo_ext (DELETE_answer demo_id))) = [] \<and>
   fs (snd (app orphan_world demo_ext (DELETE_answer demo_id))) = fs orphan_world"
proof -
  note s = delete_existing_succeeds
    [OF stored_gate eacces_ext_fields(1) eacces_ext_fields(2) stored_found]
  note o = delete_existing_succeeds [OF orphan_gate demo_ext_ok(1) demo_ext_ok(3) orphan_found]
  have sc: "collection stored_world = [demo_record]" "unlink_calls stored_world = []"
    by (simp_all add: stored_world_def startup_def)
  have oc: "distinct (map a_id (collection orphan_world))" "unlink_calls orphan_world = []"
    by (simp_all add: orphan_world_def startup_def)
  from s have s1: "fst (app stored_world eacces_ext (DELETE_answer demo_id)) =
     \<lparr>status = 200, body = Json (JMessage ''Answer deleted successfully'')\<rparr>"
    and s2: "collection (snd (app stored_world eacces_ext (DELETE_answer demo_id))) =
       deleteById (collection stored_world) demo_id"
    and s3: "\<forall>p err. filePath demo_record = Some p \<and> p \<noteq> [] \<and> existsSync (fs stored_world) p \<and>
                  unlink_err eacces_ext = Some err \<longrightarrow>
            unlink_calls (snd (app stored_world eacces_ext (DELETE_answer demo_id))) =
              unlink_calls stored_world @ [p] \<and>
            fs (snd (app stored_world eacces_ext (DELETE_answer demo_id))) = fs stored_world \<and>
            console (snd (app stored_world eacces_ext (DELETE_answer demo_id))) =
              console (after_gate stored_world eacces_ext) @ [''Error deleting temp file: '' @ err]"
    by blast+
  from s2 have s2': "collection (snd (app stored_world eacces_ext (DELETE_answer demo_id))) = []"
    by (simp add: sc deleteById_def cast_demo demo_record_def)
  have ne: "''/tmp/uploads/1700000000000-notes.txt'' \<noteq> []" by simp
  from s3 demo_record_path ne stored_exists eacces_ext_fields(3)
  have s4: "unlink_calls (snd (app stored_world eacces_ext (DELETE_answer demo_id))) =
              unlink_calls stored_world @ [''/tmp/uploads/1700000000000-notes.txt''] \<and>
            fs (snd (app stored_world eacces_ext (DELETE_answer demo_id))) = fs stored_world"
    by blast
  then have s5: "unlink_calls (snd (app stored_world eacces_ext (DELETE_answer demo_id))) =
              [''/tmp/uploads/1700000000000-notes.txt'']"
    and s6: "fs (snd (app stored_world eacces_ext (DELETE_answer demo_id))) = fs stored_world"
    by (simp_all add: sc)
  from o have o1: "fst (app orphan_world demo_ext (DELETE_answer demo_id)) =
     \<lparr>status = 200, body = Json (JMessage ''Answer deleted successfully'')\<rparr>"
    and o2: "distinct (map a_id (collection orphan_world)) \<longrightarrow>
            findById (collection (snd (app orphan_world demo_ext (DELETE_answer demo_id)))) demo_id =
              Inr None"
    and o3: "\<forall>p. filePath demo_record = Some p \<and> \<not> existsSync (fs orphan_world) p \<longrightarrow>
            unlink_calls (snd (app orphan_world demo_ext (DELETE_answer demo_id))) =
              unlink_calls orphan_world \<and>
            fs (snd (app orphan_world demo_ext (DELETE_answer demo_id))) = fs orphan_world"
    by blast+
  from o2 oc(1)
  have o4: "findById (collection (snd (app orphan_world demo_ext (DELETE_answer demo_id)))) demo_id =
      Inr None"
    by blast
  from o3 demo_record_path orphan_absent
  have o5: "unlink_calls (snd (app orphan_world demo_ext (DELETE_answer demo_id))) =
              unlink_calls orphan_world \<and>
            fs (snd (app orphan_world demo_ext (DELETE_answer demo_id))) = fs orphan_world"
    by blast
  then have o6: "unlink_calls (snd (app orphan_world demo_ext (DELETE_answer demo_id))) = []"
    and o7: "fs (snd (app orphan_world demo_ext (DELETE_answer demo_id))) = fs orphan_world"
    by (simp_all add: oc)
  from stored_gate eacces_ext_fields stored_found stored_exists s1 s2' s5 s6
    orphan_gate orphan_found orphan_absent o1 o4 o6 o7
  show ?thesis by (intro conjI)
qed

subsection \<open>Serving files\<close>

lemma serve_missing:
  assumes "gate_passes w e" and "\<not> existsSync (fs w) (path_join [uploadDir, name])"
  shows "fst (app w e (GET_upload name)) =
           \<lparr>status = 404,
            body = Text ''File not found. It may have been cleared from temporary storage.''\<rparr>"
  using assms by (simp add: gate_passes_app route_def get_upload_def after_gate_keeps Let_def)

lemma serve_existing:
  assumes "gate_passes w e" and "fs w (path_join [uploadDir, name]) = Some (File b)"
    and "\<not> containsDotFile (split_slash (path_join [uploadDir, name]))"
  shows "fst (app w e (GET_upload name)) =
           \<lparr>status = 200,
            body = FileBody b (mime_lookup (mime_types e) (path_join [uploadDir, name]))\<rparr>"
  using assms
  by (simp add: gate_passes_app route_def get_upload_def existsSync_def sendFile_def
      after_gate_keeps Let_def)

lemma upload_leaves_connected:
  assumes "status (fst (app w e (POST_upload b part))) = 201"
  shows "gate_passes (snd (app w e (POST_upload b part))) e'"
proof -
  let ?w' = "snd (app w e (POST_upload b part))"
  from assms have gate: "gate_passes w e" by (simp add: upload_201_iff)
  have "cachedDb ?w' = cachedDb (after_gate w e)"
    using gate route_keeps_connection [of "after_gate w e" e "POST_upload b part"]
    by (simp add: gate_passes_app)
  with gate have "cachedDb ?w' \<noteq> None" by (simp add: gate_passes_cached)
  then show ?thesis using cached_gate_passes by blast
qed

lemma upload_writes_file:
  assumes "status (fst (app w e (POST_upload b (Some f)))) = 201"
    and "originalname f \<noteq> []"
  shows "fs (snd (app w e (POST_upload b (Some f))))
           (path_join [uploadDir, storage_filename e f]) = Some (File (content f))"
proof -
  from assms(1) have gate: "gate_passes w e" and save: "save_err e = None"
    by (simp_all add: upload_201_iff)
  with assms(2) show ?thesis
    by (simp add: gate_passes_app route_def post_upload_def upload_single_def Let_def)
qed

lemma serve_after_upload:
  assumes created: "status (fst (app w e (POST_upload b (Some f)))) = 201"
    and named: "originalname f \<noteq> []"
    and plain: "CHR ''/'' \<notin> set (originalname f)"
  shows "fst (app (snd (app w e (POST_upload b (Some f)))) e' (GET_upload (storage_filename e f))) =
           \<lparr>status = 200,
            body = FileBody (content f)
                     (mime_lookup (mime_types e') (''/tmp/uploads/'' @ storage_filename e f))\<rparr>"
proof -
  have p: "path_join [uploadDir, storage_filename e f] = ''/tmp/uploads/'' @ storage_filename e f"
    using plain by (rule stored_path)
  have d: "\<not> containsDotFile (split_slash (path_join [uploadDir, storage_filename e f]))"
    unfolding p using plain by (rule stored_no_dot)
  from serve_existing [OF upload_leaves_connected [OF created] upload_writes_file [OF created named] d]
  show ?thesis unfolding p .
qed

lemma demo_upload_response:
  "fst (app demo_world demo_ext (POST_upload demo_form (Some demo_file))) =
     \<lparr>status = 201, body = Json (JAnswer demo_record)\<rparr>"
proof -
  have c: "next_id demo_world = 0" by (simp add: demo_world_def startup_def)
  have p: "path_join [uploadDir, ''1700000000000-notes.txt''] =
             ''/tmp/uploads/1700000000000-notes.txt''"
    by (simp add: path_join_plain)
  show ?thesis
    by (simp add: gate_passes_app [OF demo_gate] route_def post_upload_def upload_single_def
        new_answer_def demo_name p demo_ext_ok after_gate_keeps c new_id_zero demo_record_def
        demo_form_def demo_file_fields Let_def)
qed

lemma passwd_gate: "gate_passes passwd_world demo_ext"
  by (simp add: gate_passes_def connectToDatabase_def passwd_world_def demo_uri_def demo_ext_def
      startup_def)

lemma passwd_fs: "fs passwd_world ''/etc/passwd'' = Some (File ''root:x:0:0:'')"
  by (simp add: passwd_world_def startup_def existsSync_def mkdirSync_recursive_def uploadDir_eq)

lemma passwd_no_dot:
  "\<not> containsDotFile (split_slash (path_join [uploadDir, ''../../etc/passwd'']))"
  by (simp add: traversal_path containsDotFile_def)

lemma demo_ext_types: "mime_types demo_ext = demo_types" "mime_types refused_ext = demo_types"
  by (simp_all add: demo_ext_def refused_ext_def)

lemma mime_notes:
  "mime_lookup demo_types ''/tmp/uploads/1700000000000-notes.txt'' = ''text/plain''"
  by (simp add: mime_lookup_def extname_def to_lower_def demo_types_def)

lemma mime_passwd: "mime_lookup types ''/etc/passwd'' = ''application/octet-stream''"
  by (simp add: mime_lookup_def extname_def)

text \<open>
  Claim C8, as the code has it.  A request for a name whose joined path does not exist is
  answered 404.  A request for the \<open>fileName\<close> of an upload just made (status 201, file
  name not empty and without directory separator) is answered 200 with exactly the
  submitted bytes; the content type is what the framework's table has for the extension
  of the stored file name, and the submitted MIME type plays no part in it.
\<close>

theorem serve_file_roundtrip:
  "(gate_passes w e \<and> \<not> existsSync (fs w) (path_join [uploadDir, name]) \<longrightarrow>
      fst (app w e (GET_upload name)) =
        \<lparr>status = 404,
         body = Text ''File not found. It may have been cleared from temporary storage.''\<rparr>) \<and>
   (status (fst (app w e (POST_upload b (Some f)))) = 201 \<and> originalname f \<noteq> [] \<and>
    CHR ''/'' \<notin> set (originalname f) \<longrightarrow>
      fst (app (snd (app w e (POST_upload b (Some f)))) e' (GET_upload (storage_filename e f))) =
        \<lparr>status = 200,
         body = FileBody (content f)
                  (mime_lookup (mime_types e') (''/tmp/uploads/'' @ storage_filename e f))\<rparr>)"
  using serve_missing [of w e name] serve_after_upload [of w e b f e'] by blast

theorem serve_file_roundtrip_witness:
  "gate_passes demo_world demo_ext \<and>
   \<not> existsSync (fs demo_world) (path_join [uploadDir, ''missing.pdf'']) \<and>
   fst (app demo_world demo_ext (GET_upload ''missing.pdf'')) =
     \<lparr>status = 404,
      body = Text ''File not found. It may have been cleared from temporary storage.''\<rparr> \<and>
   status (fst (app demo_world demo_ext (POST_upload demo_form (Some demo_file)))) = 201 \<and>
   originalname demo_file \<noteq> [] \<and>
   CHR ''/'' \<notin> set (originalname demo_file) \<and>
   fst (app (snd (app demo_world demo_ext (POST_upload demo_form (Some demo_file)))) refused_ext
          (GET_upload ''1700000000000-notes.txt'')) =
     \<lparr>status = 200, body = FileBody ''%PDF-1.4'' ''text/plain''\<rparr>"
proof -
  have pm: "path_join [uploadDir, ''missing.pdf''] = ''/tmp/uploads/missing.pdf''"
    by (simp add: path_join_plain)
  have m: "\<not> existsSync (fs demo_world) (path_join [uploadDir, ''missing.pdf''])"
    unfolding pm
    by (simp add: demo_world_def startup_def existsSync_def mkdirSync_recursive_def uploadDir_eq)
  note t = serve_file_roundtrip [where w = demo_world and e = demo_ext and name = "''missing.pdf''"
      and b = demo_form and f = demo_file and e' = refused_ext]
  from t demo_gate m have a: "fst (app demo_world demo_ext (GET_upload ''missing.pdf'')) =
     \<lparr>status = 404,
      body = Text ''File not found. It may have been cleared from temporary storage.''\<rparr>"
    by blast
  from t demo_created demo_named demo_plain
  have "fst (app (snd (app demo_world demo_ext (POST_upload demo_form (Some demo_file)))) refused_ext
          (GET_upload (storage_filename demo_ext demo_file))) =
     \<lparr>status = 200,
      body = FileBody (content demo_file)
               (mime_lookup (mime_types refused_ext)
                  (''/tmp/uploads/'' @ storage_filename demo_ext demo_file))\<rparr>"
    by blast
  then have c: "fst (app (snd (app demo_world demo_ext (POST_upload demo_form (Some demo_file))))
          refused_ext (GET_upload ''1700000000000-notes.txt'')) =
     \<lparr>status = 200, body = FileBody ''%PDF-1.4'' ''text/plain''\<rparr>"
    by (simp add: demo_name demo_file_fields demo_ext_types mime_notes)
  from demo_gate m a demo_created demo_named demo_plain c show ?thesis by (intro conjI)
qed

text \<open>
  The claim as the specification words it fails twice.  The file \<open>notes.txt\<close> submitted as
  \<open>application/pdf\<close> is stored under \<open>1700000000000-notes.txt\<close> and served back as
  \<open>text/plain\<close>, the table's type for \<open>txt\<close>.  And in a process where nothing was ever
  uploaded, the name \<open>../../etc/passwd\<close> is answered 200 with the bytes of \<open>/etc/passwd\<close>.
\<close>

theorem serve_file_roundtrip_counterexample:
  "fst (app demo_world demo_ext (POST_upload demo_form (Some demo_file))) =
     \<lparr>status = 201, body = Json (JAnswer demo_record)\<rparr> \<and>
   fileName demo_record = Some ''1700000000000-notes.txt'' \<and>
   mimetype demo_file = ''application/pdf'' \<and>
   fst (app (snd (app demo_world demo_ext (POST_upload demo_form (Some demo_file)))) demo_ext
          (GET_upload ''1700000000000-notes.txt'')) =
     \<lparr>status = 200, body = FileBody ''%PDF-1.4'' ''text/plain''\<rparr> \<and>
   ''text/plain'' \<noteq> mimetype demo_file \<and>
   collection passwd_world = [] \<and>
   fst (app passwd_world demo_ext (GET_upload ''../../etc/passwd'')) =
     \<lparr>status = 200, body = FileBody ''root:x:0:0:'' ''application/octet-stream''\<rparr>"
proof -
  have a: "fileName demo_record = Some ''1700000000000-notes.txt''"
    by (simp add: demo_record_def)
  from serve_after_upload [OF demo_created demo_named demo_plain, where e' = demo_ext]
  have b: "fst (app (snd (app demo_world demo_ext (POST_upload demo_form (Some demo_file))))
          demo_ext (GET_upload ''1700000000000-notes.txt'')) =
     \<lparr>status = 200, body = FileBody ''%PDF-1.4'' ''text/plain''\<rparr>"
    by (simp add: demo_name demo_file_fields demo_ext_types mime_notes)
  have c: "''text/plain'' \<noteq> mimetype demo_file" by (simp add: demo_file_fields)
  have d: "collection passwd_world = []" by (simp add: passwd_world_def startup_def)
  have x: "fs passwd_world (path_join [uploadDir, ''../../etc/passwd'']) =
      Some (File ''root:x:0:0:'')"
    by (simp add: traversal_path passwd_fs)
  from serve_existing [OF passwd_gate x passwd_no_dot]
  have e: "fst (app passwd_world demo_ext (GET_upload ''../../etc/passwd'')) =
     \<lparr>status = 200, body = FileBody ''root:x:0:0:'' ''application/octet-stream''\<rparr>"
    by (simp add: traversal_path mime_passwd)
  from demo_upload_response a demo_file_fields(2) b c d e show ?thesis by (intro conjI)
qed

text \<open>
  Claim C10.  The serve-file route does not keep the joined path inside the upload
  directory.  For the decoded segment \<open>../../etc/passwd\<close> the path is \<open>/etc/passwd\<close>, which
  does not lie under \<open>/tmp/uploads\<close>; when the connection is there and a file exists there, the
  response is 200 with that file's bytes, not 404.
\<close>

theorem serve_file_leaves_upload_dir:
  "path_join [uploadDir, ''../../etc/passwd''] = ''/etc/passwd'' \<and>
   \<not> prefix uploadDir ''/etc/passwd'' \<and>
   (gate_passes w e \<and> fs w ''/etc/passwd'' = Some (File b) \<longrightarrow>
      fst (app w e (GET_upload ''../../etc/passwd'')) =
        \<lparr>status = 200, body = FileBody b (mime_lookup (mime_types e) ''/etc/passwd'')\<rparr>)"
proof -
  have q: "\<not> prefix uploadDir ''/etc/passwd''"
    by (simp add: uploadDir_eq)
  have r: "gate_passes w e \<and> fs w ''/etc/passwd'' = Some (File b) \<longrightarrow>
      fst (app w e (GET_upload ''../../etc/passwd'')) =
        \<lparr>status = 200, body = FileBody b (mime_lookup (mime_types e) ''/etc/passwd'')\<rparr>"
    using serve_existing [OF _ _ passwd_no_dot, of w e b]
    by (simp add: traversal_path)
  from traversal_path q r show ?thesis by (intro conjI)
qed

theorem serve_file_leaves_upload_dir_witness:
  "gate_passes passwd_world demo_ext \<and>
   fs passwd_world ''/etc/passwd'' = Some (File ''root:x:0:0:'') \<and>
   fst (app passwd_world demo_ext (GET_upload ''../../etc/passwd'')) =
     \<lparr>status = 200, body = FileBody ''root:x:0:0:'' ''application/octet-stream''\<rparr>"
proof -
  from serve_file_leaves_upload_dir [of passwd_world demo_ext "''root:x:0:0:''"]
    passwd_gate passwd_fs
  have "fst (app passwd_world demo_ext (GET_upload ''../../etc/passwd'')) =
     \<lparr>status = 200,
      body = FileBody ''root:x:0:0:'' (mime_lookup (mime_types demo_ext) ''/etc/passwd'')\<rparr>"
    by blast
  then have "fst (app passwd_world demo_ext (GET_upload ''../../etc/passwd'')) =
     \<lparr>status = 200, body = FileBody ''root:x:0:0:'' ''application/octet-stream''\<rparr>"
    by (simp add: mime_passwd)
  with passwd_gate passwd_fs show ?thesis by (intro conjI)
qed

subsection \<open>Response bodies\<close>




end
